theory Spec2Isabelle
  imports Main "HOL-Library.Word" "HOL-Library.Sublist"
begin

unbundle bit_operations_syntax

section \<open>The NAS watcher sketch (NAS\_watcher.ino)\<close>

text \<open>
  The sketch runs on an Arduino UNO (AVR): \<^verbatim>\<open>int\<close> is a 16-bit and \<^verbatim>\<open>long\<close> a
  32-bit two's complement integer, both modelled as words and read with \<open>sint\<close>.
  An Arduino \<^verbatim>\<open>String\<close> is modelled as a \<open>string\<close>: the \<^verbatim>\<open>len\<close> bytes it holds, a
  NUL byte included when one was appended. The calls that hand the buffer to the C library
  (\<^verbatim>\<open>strchr\<close>, \<^verbatim>\<open>strncmp\<close>, \<^verbatim>\<open>atol\<close>, the assignment of a \<^verbatim>\<open>char *\<close>) see it as a C
  string, which ends at the first NUL. The model does not bound the memory a
  \<^verbatim>\<open>String\<close> may take.
\<close>

type_synonym c_int = "16 word"
type_synonym c_long = "32 word"
type_synonym uint8_t = "8 word"

subsection \<open>Constants of the sketch\<close>

definition PIN_RED :: nat where "PIN_RED = 9"
definition PIN_GREEN :: nat where "PIN_GREEN = 10"
definition PIN_BLUE :: nat where "PIN_BLUE = 11"

definition LEVEL_NORMAL :: c_int where "LEVEL_NORMAL = 1"
definition LEVEL_NOTICE :: c_int where "LEVEL_NOTICE = 2"
definition LEVEL_ALERT :: c_int where "LEVEL_ALERT = 3"
definition LEVEL_OFF :: c_int where "LEVEL_OFF = 999"

text \<open>\<^verbatim>\<open>const int MAX_BRIGHTNESS = 8;\<close> (local to \<^verbatim>\<open>updateAlertLed\<close>).\<close>

definition MAX_BRIGHTNESS :: int where "MAX_BRIGHTNESS = 8"

subsection \<open>The Arduino String operations the sketch calls\<close>

text \<open>A buffer as the C library reads it: the characters before the first NUL.\<close>

definition c_str :: "string \<Rightarrow> string" where
  "c_str s = takeWhile (\<lambda>c. c \<noteq> CHR 0x00) s"

text \<open>
  \<^verbatim>\<open>strchr(buffer, ch)\<close>: the offset of the first \<open>ch\<close>, searched up to and including
  the terminating NUL (the end of the list stands for the terminator of the buffer).
\<close>

fun strchr :: "string \<Rightarrow> char \<Rightarrow> nat option" where
  "strchr [] ch = (if ch = CHR 0x00 then Some 0 else None)"
| "strchr (c # cs) ch =
     (if c = ch then Some 0
      else if c = CHR 0x00 then None
      else map_option Suc (strchr cs ch))"

text \<open>
  \<^verbatim>\<open>indexOf(ch)\<close>, that is \<^verbatim>\<open>indexOf(ch, 0)\<close>: \<open>-1\<close> when the string is empty or
  \<^verbatim>\<open>strchr\<close> finds nothing, else the offset found.
\<close>

definition indexOf :: "char \<Rightarrow> string \<Rightarrow> int" where
  "indexOf ch s =
     (if length s \<le> 0 then - 1
      else (case strchr s ch of None \<Rightarrow> - 1 | Some i \<Rightarrow> int i))"

text \<open>
  \<^verbatim>\<open>substring(left, right)\<close>: the bounds are swapped when \<open>left > right\<close>, the result
  is empty when \<open>left\<close> is not inside the string, and \<open>right\<close> is cut to the length.
  The result is assigned from \<^verbatim>\<open>buffer + left\<close> with a NUL put at \<open>right\<close>, as a C
  string: it ends at \<open>right\<close> or at a NUL before it.
  \<^verbatim>\<open>substring(left)\<close> is \<^verbatim>\<open>substring(left, len)\<close>.
\<close>

definition substring :: "nat \<Rightarrow> nat \<Rightarrow> string \<Rightarrow> string" where
  "substring left right s =
     (let l = (if left > right then right else left);
          r = (if left > right then left else right)
      in if l \<ge> length s then []
         else c_str (take (min r (length s) - l) (drop l s)))"

definition substring_from :: "nat \<Rightarrow> string \<Rightarrow> string" where
  "substring_from left s = substring left (length s) s"

text \<open>
  \<^verbatim>\<open>strncmp(a, b, n) == 0\<close>: the first \<open>n\<close> characters agree, up to a NUL in both.
  \<^verbatim>\<open>startsWith(s2)\<close>: false when \<open>s2\<close> is longer, else \<^verbatim>\<open>strncmp\<close> over \<open>s2.len\<close>
  characters.
\<close>

definition strncmp_eq :: "string \<Rightarrow> string \<Rightarrow> nat \<Rightarrow> bool" where
  "strncmp_eq a b n = (c_str (take n a) = c_str (take n b))"

definition startsWith :: "string \<Rightarrow> string \<Rightarrow> bool" where
  "startsWith s2 s = (if length s < length s2 then False else strncmp_eq s s2 (length s2))"

text \<open>
  \<^verbatim>\<open>toInt()\<close> returns \<^verbatim>\<open>atol(buffer)\<close>: leading white space is skipped, one sign is
  read, then the decimal digits are accumulated in a \<^verbatim>\<open>long\<close> up to the first character
  that is not a digit (a NUL or the end of the buffer); no digit at all gives 0.
\<close>

definition isspace :: "char \<Rightarrow> bool" where
  "isspace c = (c = CHR '' '' \<or> (9 \<le> (of_char c :: nat) \<and> (of_char c :: nat) \<le> 13))"

definition isdigit :: "char \<Rightarrow> bool" where
  "isdigit c = (48 \<le> (of_char c :: nat) \<and> (of_char c :: nat) \<le> 57)"

fun atol_digits :: "c_long \<Rightarrow> string \<Rightarrow> c_long" where
  "atol_digits acc [] = acc"
| "atol_digits acc (c # cs) =
     (if isdigit c then atol_digits (acc * 10 + (of_nat (of_char c) - 48)) cs else acc)"

definition atol :: "string \<Rightarrow> c_long" where
  "atol s =
     (case dropWhile isspace s of
        [] \<Rightarrow> 0
      | c # cs \<Rightarrow>
          if c = CHR ''-'' then - atol_digits 0 cs
          else if c = CHR ''+'' then atol_digits 0 cs
          else atol_digits 0 (c # cs))"

definition toInt :: "string \<Rightarrow> c_long" where
  "toInt s = atol s"

subsection \<open>Device state and outputs\<close>

text \<open>
  Every call that reaches a peripheral is logged in order: the duty written to a pin,
  the four segment bytes sent to the TM1637, a blocking delay in milliseconds, a line
  printed on the serial port.
\<close>

datatype event =
    AnalogWrite nat int
  | SetSegments "uint8_t list"
  | Delay nat
  | SerialPrintln string
  | SerialBegin nat
  | SetBrightness uint8_t
  | PinModeOutput nat

text \<open>
  The globals of the sketch (\<open>currentAlertLevel\<close>, \<open>serialData\<close>, \<open>currentDateMMDD\<close>),
  the bytes waiting in the serial receive buffer (\<open>rx\<close>), what the peripherals hold
  (\<open>led\<close>: the duties of the red, green and blue pins; \<open>segments\<close>: the four digits of
  the display) and the log of the calls (\<open>events\<close>).
\<close>

record device =
  currentAlertLevel :: c_int
  serialData :: string
  currentDateMMDD :: string
  rx :: string
  led :: "int \<times> int \<times> int"
  segments :: "uint8_t list"
  events :: "event list"

definition emit :: "event \<Rightarrow> device \<Rightarrow> device" where
  "emit e s = s\<lparr>events := events s @ [e]\<rparr>"

definition delay :: "nat \<Rightarrow> device \<Rightarrow> device" where
  "delay ms s = emit (Delay ms) s"

subsection \<open>The TM1637Display driver calls\<close>

definition digitToSegment :: "uint8_t list" where
  "digitToSegment =
     [0x3F, 0x06, 0x5B, 0x4F, 0x66, 0x6D, 0x7D, 0x07,
      0x7F, 0x6F, 0x77, 0x7C, 0x39, 0x5E, 0x79, 0x71]"

definition minusSegments :: uint8_t where "minusSegments = 0x40"

definition encodeDigit :: "uint8_t \<Rightarrow> uint8_t" where
  "encodeDigit digit = digitToSegment ! unat (digit AND 0x0F)"

text \<open>\<^verbatim>\<open>setSegments(segs)\<close> with the default length 4 and position 0: all four digits.\<close>

definition setSegments :: "uint8_t list \<Rightarrow> device \<Rightarrow> device" where
  "setSegments segs s = emit (SetSegments segs) (s\<lparr>segments := segs\<rparr>)"

definition display_clear :: "device \<Rightarrow> device" where
  "display_clear s = setSegments [0, 0, 0, 0] s"

text \<open>
  The digit loop of \<^verbatim>\<open>showNumberBaseEx\<close> in base 10, from the last position to the
  first: \<open>n\<close> positions are left, \<open>num\<close> is what remains of the number.
\<close>

fun numberDigits :: "nat \<Rightarrow> 16 word \<Rightarrow> bool \<Rightarrow> bool \<Rightarrow> uint8_t list" where
  "numberDigits 0 num leading_zero negative = []"
| "numberDigits (Suc n) num leading_zero negative =
     (let digit = (ucast (num mod 10) :: uint8_t);
          d = (if digit = 0 \<and> num = 0 \<and> \<not> leading_zero then 0 else encodeDigit digit);
          minus = (digit = 0 \<and> num = 0 \<and> negative)
      in numberDigits n (num div 10) leading_zero (negative \<and> \<not> minus)
           @ [if minus then minusSegments else d])"

text \<open>
  \<^verbatim>\<open>showNumberDec(num, leading_zero, 4, 0)\<close>: the absolute value goes through the digit
  loop as a \<^verbatim>\<open>uint16_t\<close>; the special case of the driver is 0 without leading zeros.
  \<open>numberSegments\<close> is the array \<^verbatim>\<open>digits\<close> the driver hands to \<^verbatim>\<open>setSegments\<close>.
\<close>

definition numberSegments :: "c_int \<Rightarrow> bool \<Rightarrow> uint8_t list" where
  "numberSegments num leading_zero =
     (let negative = (sint num < 0);
          n = (if negative then - num else num)
      in if n = 0 \<and> \<not> leading_zero then [0, 0, 0, encodeDigit 0]
         else numberDigits 4 n leading_zero negative)"

definition showNumberDec :: "c_int \<Rightarrow> bool \<Rightarrow> device \<Rightarrow> device" where
  "showNumberDec num leading_zero s = setSegments (numberSegments num leading_zero) s"

subsection \<open>The functions of the sketch\<close>

definition setLedColor :: "int \<Rightarrow> int \<Rightarrow> int \<Rightarrow> device \<Rightarrow> device" where
  "setLedColor r g b s =
     (emit (AnalogWrite PIN_BLUE b)
       (emit (AnalogWrite PIN_GREEN g)
         (emit (AnalogWrite PIN_RED r) s)))\<lparr>led := (r, g, b)\<rparr>"

text \<open>The \<^verbatim>\<open>switch\<close> of \<^verbatim>\<open>updateAlertLed\<close>: the values of \<open>r\<close>, \<open>g\<close>, \<open>b\<close> it selects.\<close>

definition alertColor :: "c_int \<Rightarrow> int \<times> int \<times> int" where
  "alertColor level =
     (if level = LEVEL_NORMAL then (0, MAX_BRIGHTNESS, 0)
      else if level = LEVEL_NOTICE then (255, 100, 0)
      else if level = LEVEL_ALERT then (255, 0, 0)
      else (0, 0, 0))"

definition updateAlertLed :: "c_int \<Rightarrow> device \<Rightarrow> device" where
  "updateAlertLed level s = (case alertColor level of (r, g, b) \<Rightarrow> setLedColor r g b s)"

definition dateSegments :: "string \<Rightarrow> uint8_t list" where
  "dateSegments mmdd =
     [encodeDigit (ucast (toInt (substring 0 1 mmdd))),
      encodeDigit (ucast (toInt (substring 1 2 mmdd))),
      encodeDigit (ucast (toInt (substring 2 3 mmdd))),
      encodeDigit (ucast (toInt (substring 3 4 mmdd)))]"

definition displayDate :: "string \<Rightarrow> device \<Rightarrow> device" where
  "displayDate mmdd s = (if length mmdd < 4 then s else setSegments (dateSegments mmdd) s)"

text \<open>The globals as initialised, with nothing received and nothing written yet.\<close>

definition power_on :: device where
  "power_on =
     \<lparr>currentAlertLevel = LEVEL_OFF, serialData = [], currentDateMMDD = ''0000'',
      rx = [], led = (0, 0, 0), segments = [0, 0, 0, 0], events = []\<rparr>"

text \<open>\<^verbatim>\<open>setup()\<close> of the sketch.\<close>

definition setup_sketch :: "device \<Rightarrow> device" where
  "setup_sketch s =
     display_clear
       (emit (SetBrightness 0x0A)
         (emit (SerialBegin 9600)
           (setLedColor 0 0 0
             (emit (PinModeOutput PIN_BLUE)
               (emit (PinModeOutput PIN_GREEN)
                 (emit (PinModeOutput PIN_RED) s))))))"

text \<open>
  The branch of \<^verbatim>\<open>loop\<close> for a line with a separator (\<^verbatim>\<open>separatorIndex != -1\<close>),
  from the two substrings on: the level is stored and shown on the LED, the date is stored
  when the date part starts with \<open>D\<close> or \<open>d\<close>, the level is shown on the display for
  1.5 seconds, then \<^verbatim>\<open>displayDate\<close> is called with the stored date.
\<close>

definition level_update :: "string \<Rightarrow> string \<Rightarrow> device \<Rightarrow> device" where
  "level_update levelString dateData s =
     (let level = (ucast (toInt levelString) :: c_int);
          s1 = s\<lparr>currentAlertLevel := level\<rparr>;
          s2 = updateAlertLed (currentAlertLevel s1) s1;
          s3 = (if startsWith ''D'' dateData \<or> startsWith ''d'' dateData
                then s2\<lparr>currentDateMMDD := substring_from 1 dateData\<rparr>
                else s2);
          s4 = showNumberDec level True s3;
          s5 = delay 1500 s4
      in displayDate (currentDateMMDD s5) s5)"

text \<open>
  The branch of \<^verbatim>\<open>loop\<close> taken when the byte read is a newline: the line is the content
  of \<open>serialData\<close>, which is emptied at the end.
\<close>

definition loop_newline :: "device \<Rightarrow> device" where
  "loop_newline s =
     (let separatorIndex = indexOf CHR ''_'' (serialData s);
          s' =
           (if separatorIndex \<noteq> - 1 then
              level_update
                (substring 0 (nat separatorIndex) (serialData s))
                (substring_from (nat (separatorIndex + 1)) (serialData s)) s
            else if startsWith ''OFF'' (serialData s) \<or> startsWith ''off'' (serialData s) then
              updateAlertLed LEVEL_OFF (display_clear s)
            else
              emit (SerialPrintln ''Received unexpected single level data after integration.'') s)
      in s'\<lparr>serialData := []\<rparr>)"

text \<open>
  One pass of \<^verbatim>\<open>loop\<close>: at most one byte is taken from the receive buffer; a carriage
  return is dropped, a newline ends the line, any other byte is appended to \<open>serialData\<close>.
\<close>

definition loop :: "device \<Rightarrow> device" where
  "loop s =
     delay 10
       (case rx s of
          [] \<Rightarrow> s
        | inChar # rest \<Rightarrow>
            (let s0 = s\<lparr>rx := rest\<rparr>
             in if inChar = CHR 0x0A then loop_newline s0
                else if inChar \<noteq> CHR 0x0D then s0\<lparr>serialData := serialData s0 @ [inChar]\<rparr>
                else s0))"

subsection \<open>What the sender writes\<close>

text \<open>The decimal rendering of an integer, as the host prints the level into a line.\<close>

definition digit_char :: "nat \<Rightarrow> char" where
  "digit_char d = ''0123456789'' ! d"

fun dec_nat :: "nat \<Rightarrow> string" where
  "dec_nat n =
     (if n < 10 then [digit_char n]
      else dec_nat (n div 10) @ [digit_char (n mod 10)])"

declare dec_nat.simps [simp del]

definition dec_int :: "int \<Rightarrow> string" where
  "dec_int i = (if i < 0 then CHR ''-'' # dec_nat (nat (- i)) else dec_nat (nat i))"



subsection \<open>The parts of a line\<close>

text \<open>
  The characters before the first \<open>_\<close> of a line, and the characters after it up to a
  NUL. When the device finds a \<open>_\<close>, these are its level part and its date part.
\<close>

definition level_part :: "string \<Rightarrow> string" where
  "level_part line = takeWhile (\<lambda>c. c \<noteq> CHR ''_'') line"

definition date_part :: "string \<Rightarrow> string" where
  "date_part line = c_str (tl (dropWhile (\<lambda>c. c \<noteq> CHR ''_'') line))"

subsection \<open>A state with a short stored date\<close>

text \<open>The device after the line \<open>1_D110\<close> has been received in the initial state.\<close>

definition device_with_short_date :: device where
  "device_with_short_date = loop_newline (power_on\<lparr>serialData := ''1_D110''\<rparr>)"

section \<open>Properties\<close>

subsection \<open>String operations\<close>

lemma c_str_id: "CHR 0x00 \<notin> set s \<Longrightarrow> c_str s = s"
  by (induction s) (auto simp: c_str_def)

lemma c_str_no_nul: "CHR 0x00 \<notin> set (c_str s)"
  by (auto simp: c_str_def dest: set_takeWhileD)

lemma c_str_append: "CHR 0x00 \<notin> set lp \<Longrightarrow> c_str (lp @ rest) = lp @ c_str rest"
  by (induction lp) (auto simp: c_str_def)

lemma set_c_str: "set (c_str s) \<subseteq> set s"
  by (auto simp: c_str_def dest: set_takeWhileD)

lemma c_str_same_length: "c_str x = p \<Longrightarrow> length x = length p \<Longrightarrow> x = p"
  by (induction x arbitrary: p) (auto simp: c_str_def split: if_splits)

lemma strchr_unseen: "ch \<noteq> CHR 0x00 \<Longrightarrow> ch \<notin> set (c_str s) \<Longrightarrow> strchr s ch = None"
  by (induction s) (auto simp: c_str_def)

lemma strchr_first:
  "ch \<notin> set lp \<Longrightarrow> CHR 0x00 \<notin> set lp \<Longrightarrow> strchr (lp @ ch # rest) ch = Some (length lp)"
  by (induction lp) auto

lemma indexOf_unseen: "ch \<noteq> CHR 0x00 \<Longrightarrow> ch \<notin> set (c_str s) \<Longrightarrow> indexOf ch s = - 1"
  by (simp add: indexOf_def strchr_unseen)

lemma indexOf_first:
  "ch \<notin> set lp \<Longrightarrow> CHR 0x00 \<notin> set lp \<Longrightarrow> indexOf ch (lp @ ch # rest) = int (length lp)"
  by (simp add: indexOf_def strchr_first)

lemma substring_before:
  "CHR 0x00 \<notin> set lp \<Longrightarrow> substring 0 (length lp) (lp @ c # rest) = lp"
  by (simp add: substring_def c_str_id)

lemma substring_after: "substring_from (Suc (length lp)) (lp @ c # rest) = c_str rest"
  by (simp add: substring_def substring_from_def c_str_def)

lemma substring_from_1: "substring_from (Suc 0) (c # dt) = c_str dt"
  by (simp add: substring_def substring_from_def c_str_def)

lemma startsWith_prefix:
  assumes "CHR 0x00 \<notin> set p"
  shows "startsWith p s = prefix p s"
proof (cases "length s < length p")
  case True
  then show ?thesis
    by (auto simp: startsWith_def dest: prefix_length_le)
next
  case False
  then have len: "length (take (length p) s) = length p"
    by simp
  have "startsWith p s = (c_str (take (length p) s) = p)"
    using False assms by (simp add: startsWith_def strncmp_eq_def c_str_id)
  also have "\<dots> = (take (length p) s = p)"
    using c_str_same_length [OF _ len] assms by (auto simp: c_str_id)
  also have "\<dots> = prefix p s"
    by (auto simp: prefix_def) (metis append_eq_conv_conj)
  finally show ?thesis .
qed

lemma startsWith_char: "c \<noteq> CHR 0x00 \<Longrightarrow> startsWith [c] s = (\<exists>t. s = c # t)"
  by (cases s) (auto simp: startsWith_def strncmp_eq_def c_str_def)

subsection \<open>The parts of a line the device finds\<close>

lemma level_part_no_nul:
  "CHR ''_'' \<in> set (c_str line) \<Longrightarrow> CHR 0x00 \<notin> set (level_part line)"
  by (induction line) (auto simp: c_str_def level_part_def split: if_splits)

lemma level_part_no_sep: "CHR ''_'' \<notin> set (level_part line)"
  by (auto simp: level_part_def dest: set_takeWhileD)

lemma split_at_sep:
  assumes "CHR ''_'' \<in> set (c_str line)"
  shows "line = level_part line @ CHR ''_'' # tl (dropWhile (\<lambda>c. c \<noteq> CHR ''_'') line)"
proof -
  let ?P = "\<lambda>c. c \<noteq> CHR ''_''"
  from assms have "CHR ''_'' \<in> set line"
    using set_c_str by blast
  then have ne: "dropWhile ?P line \<noteq> []"
    by (simp add: dropWhile_eq_Nil_conv)
  then have "\<not> ?P (hd (dropWhile ?P line))"
    by (rule hd_dropWhile)
  with ne have "dropWhile ?P line = CHR ''_'' # tl (dropWhile ?P line)"
    by (cases "dropWhile ?P line") simp_all
  then show ?thesis
    unfolding level_part_def by (metis takeWhile_dropWhile_id)
qed

lemma parts_of_split:
  assumes "CHR ''_'' \<notin> set lp" and "CHR 0x00 \<notin> set lp"
  shows "CHR ''_'' \<in> set (c_str (lp @ CHR ''_'' # rest))"
    and "level_part (lp @ CHR ''_'' # rest) = lp"
    and "date_part (lp @ CHR ''_'' # rest) = c_str rest"
proof -
  show "CHR ''_'' \<in> set (c_str (lp @ CHR ''_'' # rest))"
    using assms(2) by (induction lp) (auto simp: c_str_def)
  show "level_part (lp @ CHR ''_'' # rest) = lp"
    using assms(1) by (induction lp) (auto simp: level_part_def)
  show "date_part (lp @ CHR ''_'' # rest) = c_str rest"
    using assms(1) by (induction lp) (auto simp: date_part_def)
qed

lemma indexOf_seen_iff: "indexOf CHR ''_'' line \<noteq> - 1 \<longleftrightarrow> CHR ''_'' \<in> set (c_str line)"
proof
  assume "indexOf CHR ''_'' line \<noteq> - 1"
  then show "CHR ''_'' \<in> set (c_str line)"
    using indexOf_unseen [of "CHR ''_''" line] by auto
next
  assume seen: "CHR ''_'' \<in> set (c_str line)"
  have "indexOf CHR ''_'' (level_part line @ CHR ''_'' # tl (dropWhile (\<lambda>c. c \<noteq> CHR ''_'') line))
        = int (length (level_part line))"
    using level_part_no_sep level_part_no_nul [OF seen] by (rule indexOf_first)
  then show "indexOf CHR ''_'' line \<noteq> - 1"
    using split_at_sep [OF seen] by simp
qed

subsection \<open>The three branches of a line\<close>

lemma loop_newline_sep:
  assumes line: "serialData s = lp @ CHR ''_'' # rest"
    and lp: "CHR ''_'' \<notin> set lp" "CHR 0x00 \<notin> set lp"
  shows "loop_newline s = (level_update lp (c_str rest) s)\<lparr>serialData := []\<rparr>"
proof -
  have ix: "indexOf CHR ''_'' (serialData s) = int (length lp)"
    unfolding line using lp by (rule indexOf_first)
  have before: "substring 0 (nat (int (length lp))) (serialData s) = lp"
    unfolding line using lp(2) by (simp add: substring_before)
  have after: "substring_from (nat (int (length lp) + 1)) (serialData s) = c_str rest"
    unfolding line by (simp add: nat_add_distrib substring_after)
  show ?thesis
    unfolding loop_newline_def Let_def ix before after by simp
qed

lemma loop_newline_level:
  assumes "CHR ''_'' \<in> set (c_str (serialData s))"
  shows "loop_newline s =
     (level_update (level_part (serialData s)) (date_part (serialData s)) s)\<lparr>serialData := []\<rparr>"
  unfolding date_part_def
  using split_at_sep [OF assms] level_part_no_sep level_part_no_nul [OF assms]
  by (rule loop_newline_sep)

lemma loop_newline_clear:
  assumes "CHR ''_'' \<notin> set (c_str (serialData s))"
    and "prefix ''OFF'' (serialData s) \<or> prefix ''off'' (serialData s)"
  shows "loop_newline s = (updateAlertLed LEVEL_OFF (display_clear s))\<lparr>serialData := []\<rparr>"
  using assms by (simp add: loop_newline_def indexOf_unseen startsWith_prefix)

lemma loop_newline_other:
  assumes "CHR ''_'' \<notin> set (c_str (serialData s))"
    and "\<not> prefix ''OFF'' (serialData s)" and "\<not> prefix ''off'' (serialData s)"
  shows "loop_newline s =
     (emit (SerialPrintln ''Received unexpected single level data after integration.'') s)
       \<lparr>serialData := []\<rparr>"
  using assms by (simp add: loop_newline_def indexOf_unseen startsWith_prefix)

lemma level_update_state:
  "level_update ls dd s =
     (let level = (ucast (toInt ls) :: c_int);
          date = (if startsWith ''D'' dd \<or> startsWith ''d'' dd
                  then substring_from 1 dd else currentDateMMDD s)
      in s\<lparr>currentAlertLevel := level,
           currentDateMMDD := date,
           led := alertColor level,
           segments := (if length date < 4 then numberSegments level True else dateSegments date),
           events := events s @
             [AnalogWrite PIN_RED (fst (alertColor level)),
              AnalogWrite PIN_GREEN (fst (snd (alertColor level))),
              AnalogWrite PIN_BLUE (snd (snd (alertColor level))),
              SetSegments (numberSegments level True), Delay 1500] @
             (if length date < 4 then [] else [SetSegments (dateSegments date)])\<rparr>)"
  by (simp add: level_update_def updateAlertLed_def setLedColor_def emit_def delay_def
      showNumberDec_def setSegments_def displayDate_def Let_def split: prod.splits)

lemma alertColor_values:
  "alertColor LEVEL_NORMAL = (0, MAX_BRIGHTNESS, 0)"
  "alertColor LEVEL_NOTICE = (255, 100, 0)"
  "alertColor LEVEL_ALERT = (255, 0, 0)"
  "alertColor LEVEL_OFF = (0, 0, 0)"
  by (simp_all add: alertColor_def LEVEL_NORMAL_def LEVEL_NOTICE_def LEVEL_ALERT_def LEVEL_OFF_def)

lemma updateAlertLed_state:
  "updateAlertLed level s =
     s\<lparr>led := alertColor level,
       events := events s @
         [AnalogWrite PIN_RED (fst (alertColor level)),
          AnalogWrite PIN_GREEN (fst (snd (alertColor level))),
          AnalogWrite PIN_BLUE (snd (snd (alertColor level)))]\<rparr>"
  by (simp add: updateAlertLed_def setLedColor_def emit_def split: prod.splits)

lemma clear_state:
  "updateAlertLed LEVEL_OFF (display_clear s) =
     s\<lparr>led := (0, 0, 0), segments := [0, 0, 0, 0],
       events := events s @
         [SetSegments [0, 0, 0, 0], AnalogWrite PIN_RED 0, AnalogWrite PIN_GREEN 0,
          AnalogWrite PIN_BLUE 0]\<rparr>"
  by (simp add: updateAlertLed_def alertColor_def LEVEL_OFF_def LEVEL_NORMAL_def LEVEL_NOTICE_def
      LEVEL_ALERT_def setLedColor_def display_clear_def setSegments_def emit_def)

subsection \<open>Reading numbers\<close>

lemma isdigit_not_special:
  "isdigit c \<Longrightarrow> \<not> isspace c \<and> c \<noteq> CHR ''-'' \<and> c \<noteq> CHR ''+'' \<and> c \<noteq> CHR ''_''"
  by (auto simp: isdigit_def isspace_def)



lemma toInt_single: "toInt [c] = (if isdigit c then of_nat (of_char c) - 48 else 0)"
  by (auto simp: toInt_def atol_def isdigit_def isspace_def)

lemma toInt_c_str_single: "toInt (c_str [c]) = toInt [c]"
  by (auto simp: c_str_def toInt_single isdigit_def) (simp add: toInt_def atol_def)

lemma dateSegments_take:
  assumes "4 \<le> length mmdd"
  shows "dateSegments mmdd = map (\<lambda>c. encodeDigit (ucast (toInt [c]))) (take 4 mmdd)"
proof -
  from assms obtain a b c d r where "mmdd = a # b # c # d # r"
    by (auto simp: numeral_eq_Suc Suc_le_length_iff)
  then show ?thesis
    by (simp add: dateSegments_def substring_def toInt_c_str_single)
qed

subsection \<open>The decimal rendering is read back\<close>

lemma digit_char_val:
  assumes "d < 10"
  shows "(of_char (digit_char d) :: nat) = 48 + d"
proof -
  from assms have "d \<in> {0, 1, 2, 3, 4, 5, 6, 7, 8, 9}"
    by auto
  then show ?thesis
    unfolding digit_char_def by (elim insertE emptyE) simp_all
qed

lemma isdigit_digit_char: "d < 10 \<Longrightarrow> isdigit (digit_char d)"
  by (simp add: isdigit_def digit_char_val)

lemma dec_nat_digits: "c \<in> set (dec_nat n) \<Longrightarrow> isdigit c"
proof (induction n rule: dec_nat.induct)
  case (1 n)
  show ?case
  proof (cases "n < 10")
    case True
    with "1.prems" show ?thesis
      by (subst (asm) dec_nat.simps) (simp add: isdigit_digit_char)
  next
    case False
    have "isdigit (digit_char (n mod 10))"
      by (simp add: isdigit_digit_char)
    with False "1.prems" "1.IH" show ?thesis
      by (subst (asm) dec_nat.simps) auto
  qed
qed

lemma dec_nat_nonempty: "dec_nat n \<noteq> []"
  by (subst dec_nat.simps) simp

lemma hd_dec_nat_digit: "\<exists>c cs. dec_nat n = c # cs \<and> isdigit c"
  using dec_nat_nonempty [of n] dec_nat_digits [of _ n]
  by (cases "dec_nat n") auto

lemma dec_int_no_sep: "CHR ''_'' \<notin> set (dec_int i)"
  using dec_nat_digits isdigit_not_special by (auto simp: dec_int_def)

lemma atol_digits_append:
  "\<forall>c\<in>set ds. isdigit c \<Longrightarrow>
     atol_digits acc (ds @ rest) = atol_digits (atol_digits acc ds) rest"
  by (induction ds arbitrary: acc) auto

lemma of_nat_div_mod_10: "(of_nat (n div 10) * 10 + of_nat (n mod 10) :: c_long) = of_nat n"
proof -
  have "(of_nat (n div 10 * 10 + n mod 10) :: c_long) = of_nat n"
    by simp
  then show ?thesis
    by (simp only: of_nat_add of_nat_mult of_nat_numeral)
qed

lemma atol_digits_dec_nat:
  "atol_digits acc (dec_nat n) = acc * 10 ^ length (dec_nat n) + of_nat n"
proof (induction n arbitrary: acc rule: dec_nat.induct)
  case (1 n)
  show ?case
  proof (cases "n < 10")
    case True
    then show ?thesis
      by (subst (1 2) dec_nat.simps) (simp add: isdigit_digit_char digit_char_val)
  next
    case False
    let ?d = "digit_char (n mod 10)"
    let ?k = "length (dec_nat (n div 10))"
    have d: "isdigit ?d" and v: "(of_char ?d :: nat) = 48 + n mod 10"
      by (simp_all add: isdigit_digit_char digit_char_val)
    have all: "\<forall>c\<in>set (dec_nat (n div 10)). isdigit c"
      using dec_nat_digits by blast
    have len: "length (dec_nat n) = Suc ?k"
      using False by (subst dec_nat.simps) simp
    have "atol_digits acc (dec_nat n) = atol_digits (atol_digits acc (dec_nat (n div 10))) [?d]"
      using False by (subst dec_nat.simps) (simp add: atol_digits_append [OF all])
    also have "\<dots> = atol_digits acc (dec_nat (n div 10)) * 10 + of_nat (n mod 10)"
      using d v by simp
    also have "\<dots> = (acc * 10 ^ ?k + of_nat (n div 10)) * 10 + of_nat (n mod 10)"
      using "1.IH" [OF False] by simp
    also have "\<dots> = acc * 10 ^ Suc ?k + (of_nat (n div 10) * 10 + of_nat (n mod 10))"
      by (simp add: algebra_simps)
    finally show ?thesis
      unfolding len of_nat_div_mod_10 .
  qed
qed

lemma atol_dec_int: "atol (dec_int i) = of_int i"
proof (cases "i < 0")
  case True
  have "\<not> isspace CHR ''-''" by (simp add: isspace_def)
  then have "atol (dec_int i) = - of_nat (nat (- i))"
    using True by (simp add: atol_def dec_int_def atol_digits_dec_nat)
  then show ?thesis using True by simp
next
  case False
  obtain c cs where cs: "dec_nat (nat i) = c # cs" and c: "isdigit c"
    using hd_dec_nat_digit by blast
  from c have "atol (c # cs) = atol_digits 0 (c # cs)"
    using isdigit_not_special [OF c] by (simp add: atol_def)
  then have "atol (dec_int i) = of_nat (nat i)"
    using False cs atol_digits_dec_nat [of 0 "nat i"] by (simp add: dec_int_def)
  then show ?thesis using False by simp
qed

lemma ucast_of_int_down: "(ucast (of_int i :: c_long) :: c_int) = of_int i"
  by (rule ucast_down_wi) (simp add: is_down)

lemma sint_of_int_16:
  assumes "- 32768 \<le> i" and "i < 32768"
  shows "sint (of_int i :: c_int) = i"
  using assms by (simp add: sint_sbintrunc' signed_take_bit_int_eq_self)

lemma level_of_dec_int:
  assumes "- 32768 \<le> i" and "i < 32768"
  shows "sint (ucast (toInt (dec_int i)) :: c_int) = i"
  using assms by (simp add: toInt_def atol_dec_int ucast_of_int_down sint_of_int_16)

subsection \<open>Passes of the loop\<close>

lemma loop_char:
  assumes "rx s = c # cs" and "c \<noteq> CHR 0x0A" and "c \<noteq> CHR 0x0D"
  shows "loop s = s\<lparr>rx := cs, serialData := serialData s @ [c], events := events s @ [Delay 10]\<rparr>"
  using assms by (simp add: loop_def delay_def emit_def)

lemma loop_line_end:
  assumes "rx s = CHR 0x0A # cs"
  shows "loop s = delay 10 (loop_newline (s\<lparr>rx := cs\<rparr>))"
  using assms by (simp add: loop_def)

lemma funpow_7: "(f ^^ 7) x = f (f (f (f (f (f (f x))))))"
  by (simp add: numeral_eq_Suc)

lemma funpow_12: "(f ^^ 12) x = f (f (f (f (f (f (f (f (f (f (f (f x)))))))))))"
  by (simp add: numeral_eq_Suc)

subsection \<open>The line \<open>1_D1109\<close>\<close>

lemma numberSegments_1: "numberSegments 1 True = map encodeDigit [0, 0, 0, 1]"
  by code_simp

lemma dateSegments_1109: "dateSegments ''1109'' = map encodeDigit [1, 1, 0, 9]"
  by code_simp

lemma toInt_1: "toInt ''1'' = 1"
  by code_simp

lemma line_1_D1109:
  assumes "serialData s = ''1_D1109''"
  shows "loop_newline s =
     s\<lparr>currentAlertLevel := 1, serialData := [], currentDateMMDD := ''1109'',
       led := alertColor LEVEL_NORMAL,
       segments := map encodeDigit [1, 1, 0, 9],
       events := events s @
         [AnalogWrite PIN_RED 0, AnalogWrite PIN_GREEN MAX_BRIGHTNESS, AnalogWrite PIN_BLUE 0,
          SetSegments (map encodeDigit [0, 0, 0, 1]), Delay 1500,
          SetSegments (map encodeDigit [1, 1, 0, 9])]\<rparr>"
proof -
  have "loop_newline s = (level_update ''1'' (c_str ''D1109'') s)\<lparr>serialData := []\<rparr>"
    using assms by (intro loop_newline_sep) simp_all
  then have "loop_newline s = (level_update ''1'' ''D1109'' s)\<lparr>serialData := []\<rparr>"
    by (simp add: c_str_def)
  also have "level_update ''1'' ''D1109'' s =
     s\<lparr>currentAlertLevel := 1, currentDateMMDD := ''1109'',
       led := alertColor LEVEL_NORMAL,
       segments := map encodeDigit [1, 1, 0, 9],
       events := events s @
         [AnalogWrite PIN_RED 0, AnalogWrite PIN_GREEN MAX_BRIGHTNESS, AnalogWrite PIN_BLUE 0,
          SetSegments (map encodeDigit [0, 0, 0, 1]), Delay 1500,
          SetSegments (map encodeDigit [1, 1, 0, 9])]\<rparr>"
    unfolding level_update_state Let_def toInt_1
    by (simp add: startsWith_char substring_from_1 c_str_def numberSegments_1
        dateSegments_1109 alertColor_def LEVEL_NORMAL_def)
  finally show ?thesis by simp
qed

subsection \<open>Digits on the display\<close>

lemma encodeDigit_small:
  assumes "k < 10"
  shows "encodeDigit (of_nat k) = digitToSegment ! k"
proof -
  from assms have "k \<in> {0, 1, 2, 3, 4, 5, 6, 7, 8, 9}"
    by auto
  then show ?thesis
    unfolding encodeDigit_def by (elim insertE emptyE) simp_all
qed

lemma ucast_of_nat_down: "(ucast (of_nat k :: c_long) :: uint8_t) = of_nat k"
proof -
  have "(ucast (of_int (int k) :: c_long) :: uint8_t) = of_int (int k)"
    by (rule ucast_down_wi) (simp add: is_down)
  then show ?thesis by simp
qed

lemma digit_toInt:
  assumes "isdigit c"
  shows "encodeDigit (ucast (toInt [c])) = digitToSegment ! (of_char c - 48)"
proof -
  define k where "k = (of_char c :: nat) - 48"
  have k: "k < 10" and n: "(of_char c :: nat) = 48 + k"
    using assms by (auto simp: isdigit_def k_def)
  have "toInt [c] = of_nat k"
    using assms by (simp add: toInt_single n)
  then show ?thesis
    using k by (simp add: ucast_of_nat_down encodeDigit_small n)
qed

lemma dateSegments_digits:
  assumes "4 \<le> length mmdd" and "list_all isdigit (take 4 mmdd)"
  shows "dateSegments mmdd = map (\<lambda>c. digitToSegment ! (of_char c - 48)) (take 4 mmdd)"
  unfolding dateSegments_take [OF assms(1)]
  using assms(2) by (intro map_cong refl digit_toInt) (simp add: list_all_iff)

lemma dec_int_40000: "dec_int 40000 = ''40000''"
  by (simp add: dec_int_def dec_nat.simps digit_char_def)

lemma toInt_OFF: "toInt ''OFF'' = 0"
  by code_simp

subsection \<open>No NUL in digits, in a date part or in the stored date\<close>

lemma isdigit_not_nul: "isdigit c \<Longrightarrow> c \<noteq> CHR 0x00"
  by (auto simp: isdigit_def)

lemma dec_int_no_nul: "CHR 0x00 \<notin> set (dec_int i)"
  using dec_nat_digits isdigit_not_nul by (auto simp: dec_int_def)

lemma date_part_no_nul: "CHR 0x00 \<notin> set (date_part line)"
  by (simp add: date_part_def c_str_no_nul)

lemma date_part_tail:
  assumes "date_part line = c # dt"
  shows "c_str dt = dt" and "c \<noteq> CHR 0x00"
  using date_part_no_nul [of line] assms by (auto simp: c_str_id)

lemma substring_no_nul: "CHR 0x00 \<notin> set (substring left right s)"
  by (simp add: substring_def Let_def c_str_no_nul)

lemma stored_date_level_update:
  assumes "CHR 0x00 \<notin> set (currentDateMMDD s)"
  shows "CHR 0x00 \<notin> set (currentDateMMDD (level_update ls dd s))"
  using assms substring_no_nul [of 1 "length dd" dd]
  by (simp add: level_update_state Let_def substring_from_def)

lemma stored_date_loop_newline:
  assumes "CHR 0x00 \<notin> set (currentDateMMDD s)"
  shows "CHR 0x00 \<notin> set (currentDateMMDD (loop_newline s))"
  using assms
  by (simp add: loop_newline_def Let_def stored_date_level_update clear_state emit_def)

lemma stored_date_loop:
  assumes "CHR 0x00 \<notin> set (currentDateMMDD s)"
  shows "CHR 0x00 \<notin> set (currentDateMMDD (loop s))"
  using assms
  by (simp add: loop_def delay_def emit_def Let_def stored_date_loop_newline split: list.splits)

lemma stored_date_setup: "CHR 0x00 \<notin> set (currentDateMMDD (setup_sketch power_on))"
  by (simp add: setup_sketch_def power_on_def display_clear_def setSegments_def setLedColor_def
      emit_def)

section \<open>The claims\<close>

subsection \<open>C1: a level update with a short date\<close>

text \<open>
  The line \<open>1_D110\<close> does not leave the stored date unchanged: after it the stored
  date is \<open>110\<close>, no longer the initial \<open>0000\<close>.
\<close>

theorem short_date_is_stored_counterexample:
  "currentDateMMDD (loop_newline (power_on\<lparr>serialData := ''1_D110''\<rparr>))
     \<noteq> currentDateMMDD power_on"
  by code_simp

text \<open>
  C1, as the sketch has it: for every level update (a line in which the device finds a
  \<open>_\<close>, that is one with a \<open>_\<close> that no NUL precedes) whose date part is \<open>D\<close> or \<open>d\<close>
  followed by a date \<open>dt\<close> of fewer than 4 characters, the stored level becomes the
  parsed level and the stored date becomes \<open>dt\<close>. The length of the date is only looked
  at by \<^verbatim>\<open>displayDate\<close>.
\<close>

theorem level_update_stores_short_date:
  assumes "CHR ''_'' \<in> set (c_str (serialData s))"
    and "date_part (serialData s) = c # dt"
    and "c = CHR ''D'' \<or> c = CHR ''d''"
    and "length dt < 4"
  shows "currentAlertLevel (loop_newline s) = ucast (toInt (level_part (serialData s)))
       \<and> currentDateMMDD (loop_newline s) = dt"
  using assms(3) date_part_tail [OF assms(2)]
  by (auto simp: loop_newline_level [OF assms(1)] assms(2) level_update_state Let_def
      startsWith_char substring_from_1)

theorem level_update_stores_short_date_witness:
  "CHR ''_'' \<in> set (c_str (serialData (power_on\<lparr>serialData := ''1_D110''\<rparr>)))
   \<and> date_part (serialData (power_on\<lparr>serialData := ''1_D110''\<rparr>)) = CHR ''D'' # ''110''
   \<and> length ''110'' < (4 :: nat)
   \<and> currentAlertLevel (loop_newline (power_on\<lparr>serialData := ''1_D110''\<rparr>)) = 1
   \<and> currentDateMMDD (loop_newline (power_on\<lparr>serialData := ''1_D110''\<rparr>)) = ''110''"
  using level_update_stores_short_date
    [of "power_on\<lparr>serialData := ''1_D110''\<rparr>" "CHR ''D''" "''110''"]
  by (simp add: toInt_1 c_str_def date_part_def level_part_def)

subsection \<open>C2: the clear command\<close>

text \<open>
  C2 at the bytes \<open>1_D1109\<close>, newline, \<open>OFF\<close>, newline, received after reset: twelve
  passes of the loop consume them. The LED is off afterwards, but \<open>currentAlertLevel\<close>
  still holds the level 1 of the first line, not \<open>LEVEL_OFF\<close>: the \<open>OFF\<close> branch calls
  \<^verbatim>\<open>updateAlertLed(LEVEL_OFF)\<close> without assigning the global, which the branch for a
  level line does.
\<close>

theorem clear_keeps_stored_level:
  "currentAlertLevel ((loop ^^ 12)
      ((setup_sketch power_on)\<lparr>rx := ''1_D1109'' @ [CHR 0x0A] @ ''OFF'' @ [CHR 0x0A]\<rparr>))
     = LEVEL_NORMAL
   \<and> LEVEL_NORMAL \<noteq> LEVEL_OFF
   \<and> led ((loop ^^ 12)
      ((setup_sketch power_on)\<lparr>rx := ''1_D1109'' @ [CHR 0x0A] @ ''OFF'' @ [CHR 0x0A]\<rparr>))
     = (0, 0, 0)"
proof -
  have "LEVEL_NORMAL \<noteq> LEVEL_OFF" and "LEVEL_NORMAL = 1"
    by (simp_all add: LEVEL_NORMAL_def LEVEL_OFF_def)
  then show ?thesis
    by (simp add: funpow_12 loop_def delay_def emit_def line_1_D1109 loop_newline_clear
        updateAlertLed_state alertColor_values setup_sketch_def power_on_def setLedColor_def
        display_clear_def setSegments_def c_str_def)
qed

subsection \<open>C3: the colors and the maximum brightness\<close>

text \<open>The level Notice is not Off, and its red component 255 is above \<open>MAX_BRIGHTNESS\<close>.\<close>

theorem notice_exceeds_max_brightness_counterexample:
  "LEVEL_NOTICE \<noteq> LEVEL_OFF
   \<and> \<not> fst (led (updateAlertLed LEVEL_NOTICE power_on)) \<le> MAX_BRIGHTNESS"
proof -
  have "led (updateAlertLed LEVEL_NOTICE power_on) = (255, 100, 0)"
    by (simp add: updateAlertLed_state alertColor_values)
  then show ?thesis
    by (simp add: MAX_BRIGHTNESS_def LEVEL_NOTICE_def LEVEL_OFF_def)
qed

text \<open>
  C3, as the sketch has it: only the Normal level is held to \<open>MAX_BRIGHTNESS\<close> (its
  triple is \<open>(0, MAX_BRIGHTNESS, 0)\<close>); Notice is \<open>(255, 100, 0)\<close> and Alert is
  \<open>(255, 0, 0)\<close>; for every level each component lies between 0 and 255.
\<close>

theorem alert_colors:
  "led (updateAlertLed LEVEL_NORMAL s) = (0, MAX_BRIGHTNESS, 0)
   \<and> (case led (updateAlertLed LEVEL_NORMAL s) of
        (r, g, b) \<Rightarrow> r \<le> MAX_BRIGHTNESS \<and> g \<le> MAX_BRIGHTNESS \<and> b \<le> MAX_BRIGHTNESS)
   \<and> led (updateAlertLed LEVEL_NOTICE s) = (255, 100, 0)
   \<and> led (updateAlertLed LEVEL_ALERT s) = (255, 0, 0)
   \<and> (case led (updateAlertLed level s) of
        (r, g, b) \<Rightarrow> 0 \<le> r \<and> r \<le> 255 \<and> 0 \<le> g \<and> g \<le> 255 \<and> 0 \<le> b \<and> b \<le> 255)"
  by (simp add: updateAlertLed_state alertColor_values)
     (simp add: alertColor_def MAX_BRIGHTNESS_def)

subsection \<open>C4: a line with a level and a date\<close>

text \<open>
  The level 40000 does not fit the 16-bit \<^verbatim>\<open>int\<close> the sketch keeps it in: the level
  stored for the line \<open>40000_D1109\<close> is not 40000.
\<close>

theorem level_out_of_int_range_counterexample:
  "sint (currentAlertLevel
     (loop_newline (power_on\<lparr>serialData := dec_int 40000 @ ''_D'' @ ''1109''\<rparr>))) \<noteq> 40000"
  unfolding dec_int_40000 by code_simp

text \<open>
  C4, for the levels an \<^verbatim>\<open>int\<close> holds: for every integer \<open>L\<close> from -32768 to 32767 and
  every date \<open>D\<close> of four digits, the line made of the decimal rendering of \<open>L\<close>, then
  \<open>_D\<close>, then \<open>D\<close> stores the level \<open>L\<close> and the date \<open>D\<close>, sets the LED to the
  color of \<open>L\<close> and leaves the glyphs of the four digits of \<open>D\<close> on the display.
\<close>

theorem level_and_date_line:
  assumes "- 32768 \<le> L" and "L \<le> 32767"
    and "length D = 4" and "list_all isdigit D"
    and "serialData s = dec_int L @ ''_D'' @ D"
  shows "sint (currentAlertLevel (loop_newline s)) = L
       \<and> currentDateMMDD (loop_newline s) = D
       \<and> led (loop_newline s) = alertColor (of_int L)
       \<and> segments (loop_newline s) = map (\<lambda>c. digitToSegment ! (of_char c - 48)) D"
proof -
  have line: "serialData s = dec_int L @ CHR ''_'' # (CHR ''D'' # D)"
    using assms(5) by simp
  have digits: "CHR 0x00 \<notin> set D"
    using assms(4) isdigit_not_nul by (auto simp: list_all_iff)
  have date: "c_str (CHR ''D'' # D) = CHR ''D'' # D" "c_str D = D"
    using digits by (simp_all add: c_str_id)
  have level: "(ucast (toInt (dec_int L)) :: c_int) = of_int L"
    by (simp add: toInt_def atol_dec_int ucast_of_int_down)
  have "sint (of_int L :: c_int) = L"
    using assms(1,2) by (intro sint_of_int_16) simp_all
  moreover have "dateSegments D = map (\<lambda>c. digitToSegment ! (of_char c - 48)) D"
    using dateSegments_digits [of D] assms(3,4) by simp
  ultimately show ?thesis
    using assms(3)
    by (simp add: loop_newline_sep [OF line dec_int_no_sep dec_int_no_nul] date
        level_update_state Let_def startsWith_char substring_from_1 level)
qed

theorem level_and_date_line_witness:
  "- 32768 \<le> (2 :: int) \<and> (2 :: int) \<le> 32767 \<and> length ''1109'' = 4 \<and> list_all isdigit ''1109''
   \<and> serialData (power_on\<lparr>serialData := ''2_D1109''\<rparr>) = dec_int 2 @ ''_D'' @ ''1109''
   \<and> sint (currentAlertLevel (loop_newline (power_on\<lparr>serialData := ''2_D1109''\<rparr>))) = 2
   \<and> currentDateMMDD (loop_newline (power_on\<lparr>serialData := ''2_D1109''\<rparr>)) = ''1109''"
proof -
  have d: "dec_int 2 = ''2''"
    by (simp add: dec_int_def dec_nat.simps digit_char_def)
  have digits: "list_all isdigit ''1109''"
    by (simp add: isdigit_def)
  show ?thesis
    using level_and_date_line [of 2 "''1109''" "power_on\<lparr>serialData := ''2_D1109''\<rparr>"] digits
    by (simp add: d)
qed

subsection \<open>C5: a line that is neither a level update nor a clear command\<close>

text \<open>
  C5: for every line without \<open>_\<close> that starts neither with \<open>OFF\<close> nor with \<open>off\<close>,
  the only effects are the diagnostic line printed on the serial port and the emptied
  receive line: stored level, stored date, LED and display are unchanged.
\<close>

theorem unrecognized_line:
  assumes "CHR ''_'' \<notin> set (serialData s)"
    and "\<not> prefix ''OFF'' (serialData s)" and "\<not> prefix ''off'' (serialData s)"
  shows "loop_newline s =
     s\<lparr>serialData := [],
       events := events s @
         [SerialPrintln ''Received unexpected single level data after integration.'']\<rparr>"
proof -
  have "CHR ''_'' \<notin> set (c_str (serialData s))"
    using assms(1) set_c_str by blast
  then show ?thesis
    using assms(2,3) by (simp add: loop_newline_other emit_def)
qed

theorem unrecognized_line_witness:
  "CHR ''_'' \<notin> set ''garbage'' \<and> \<not> prefix ''OFF'' ''garbage'' \<and> \<not> prefix ''off'' ''garbage''
   \<and> loop_newline (power_on\<lparr>serialData := ''garbage''\<rparr>) =
       power_on\<lparr>events :=
         [SerialPrintln ''Received unexpected single level data after integration.'']\<rparr>"
  using unrecognized_line [of "power_on\<lparr>serialData := ''garbage''\<rparr>"]
  by (simp add: power_on_def)

subsection \<open>C6: the line \<open>1_D1109\<close>\<close>

text \<open>
  C6: from any state with an empty line buffer, the eight passes of the loop that consume
  the bytes \<open>1_D1109\<close> and the newline store level 1 and date \<open>1109\<close>, write the
  Normal color \<open>(0, MAX_BRIGHTNESS, 0)\<close> to the LED pins, send the glyphs of \<open>0001\<close> to
  the display, wait 1500 ms, then send the glyphs of \<open>1109\<close>, which stay on the display.
\<close>

theorem line_1_D1109_scenario:
  "(loop ^^ 8) (s\<lparr>serialData := [], rx := ''1_D1109'' @ [CHR 0x0A]\<rparr>) =
     s\<lparr>currentAlertLevel := 1, serialData := [], currentDateMMDD := ''1109'', rx := [],
       led := alertColor LEVEL_NORMAL,
       segments := map encodeDigit [1, 1, 0, 9],
       events := events s @
         [Delay 10, Delay 10, Delay 10, Delay 10, Delay 10, Delay 10, Delay 10,
          AnalogWrite PIN_RED 0, AnalogWrite PIN_GREEN MAX_BRIGHTNESS, AnalogWrite PIN_BLUE 0,
          SetSegments (map encodeDigit [0, 0, 0, 1]), Delay 1500,
          SetSegments (map encodeDigit [1, 1, 0, 9]), Delay 10]\<rparr>"
proof -
  let ?s0 = "s\<lparr>serialData := [], rx := ''1_D1109'' @ [CHR 0x0A]\<rparr>"
  let ?s7 = "s\<lparr>serialData := ''1_D1109'', rx := [CHR 0x0A],
               events := events s @
                 [Delay 10, Delay 10, Delay 10, Delay 10, Delay 10, Delay 10, Delay 10]\<rparr>"
  have seven: "(loop ^^ 7) ?s0 = ?s7"
    by (simp add: funpow_7 loop_def delay_def emit_def)
  have "(loop ^^ 8) ?s0 = loop ((loop ^^ 7) ?s0)"
    by (simp add: funpow_7 numeral_eq_Suc)
  also have "\<dots> = loop ?s7"
    unfolding seven ..
  also have "\<dots> =
     s\<lparr>currentAlertLevel := 1, serialData := [], currentDateMMDD := ''1109'', rx := [],
       led := alertColor LEVEL_NORMAL,
       segments := map encodeDigit [1, 1, 0, 9],
       events := events s @
         [Delay 10, Delay 10, Delay 10, Delay 10, Delay 10, Delay 10, Delay 10,
          AnalogWrite PIN_RED 0, AnalogWrite PIN_GREEN MAX_BRIGHTNESS, AnalogWrite PIN_BLUE 0,
          SetSegments (map encodeDigit [0, 0, 0, 1]), Delay 1500,
          SetSegments (map encodeDigit [1, 1, 0, 9]), Delay 10]\<rparr>"
    by (simp add: loop_line_end line_1_D1109 delay_def emit_def)
  finally show ?thesis .
qed

subsection \<open>C7: a level part without digits\<close>




subsection \<open>C8: the date after a clear command\<close>

text \<open>
  After the line \<open>1_D110\<close> the stored date is \<open>110\<close>. When \<open>OFF\<close> and then \<open>2_\<close>
  follow, no date is rendered once the dwell ends: the last event is the delay and the
  display keeps \<open>0002\<close>.
\<close>

theorem short_date_not_redisplayed_counterexample:
  "currentDateMMDD device_with_short_date = ''110''
   \<and> segments (loop_newline
        ((loop_newline (device_with_short_date\<lparr>serialData := ''OFF''\<rparr>))\<lparr>serialData := ''2_''\<rparr>))
       = map encodeDigit [0, 0, 0, 2]
   \<and> last (events (loop_newline
        ((loop_newline (device_with_short_date\<lparr>serialData := ''OFF''\<rparr>))\<lparr>serialData := ''2_''\<rparr>)))
       = Delay 1500"
  by code_simp

text \<open>
  C8, for a stored date that can be displayed: for every state whose stored date has at
  least 4 characters (none of them a NUL: no stored date holds one, see
  \<open>stored_date_setup\<close> and \<open>stored_date_loop\<close>), after a clear command (a line in which
  the device finds no \<open>_\<close> and that starts with \<open>OFF\<close> or \<open>off\<close>) followed by a level
  update (a line in which the device finds a \<open>_\<close>) whose date part starts neither with
  \<open>D\<close> nor with \<open>d\<close>, the stored date is the one from before the clear command and,
  once the dwell has ended, the display shows the glyphs of its first four characters.
\<close>

theorem date_redisplayed_after_clear:
  assumes "4 \<le> length (currentDateMMDD s)" and "CHR 0x00 \<notin> set (currentDateMMDD s)"
    and "CHR ''_'' \<notin> set (c_str (serialData s))"
    and "prefix ''OFF'' (serialData s) \<or> prefix ''off'' (serialData s)"
    and "CHR ''_'' \<in> set (c_str line)"
    and "\<not> prefix ''D'' (date_part line)" and "\<not> prefix ''d'' (date_part line)"
  shows "currentDateMMDD (loop_newline ((loop_newline s)\<lparr>serialData := line\<rparr>))
           = currentDateMMDD s
       \<and> segments (loop_newline ((loop_newline s)\<lparr>serialData := line\<rparr>))
           = map (\<lambda>c. encodeDigit (ucast (toInt [c]))) (take 4 (currentDateMMDD s))
       \<and> events (loop_newline ((loop_newline s)\<lparr>serialData := line\<rparr>))
           = events (loop_newline s) @
             [AnalogWrite PIN_RED (fst (alertColor (ucast (toInt (level_part line))))),
              AnalogWrite PIN_GREEN (fst (snd (alertColor (ucast (toInt (level_part line)))))),
              AnalogWrite PIN_BLUE (snd (snd (alertColor (ucast (toInt (level_part line)))))),
              SetSegments (numberSegments (ucast (toInt (level_part line))) True), Delay 1500,
              SetSegments (map (\<lambda>c. encodeDigit (ucast (toInt [c]))) (take 4 (currentDateMMDD s)))]"
proof -
  let ?s1 = "(loop_newline s)\<lparr>serialData := line\<rparr>"
  have clear: "loop_newline s = (updateAlertLed LEVEL_OFF (display_clear s))\<lparr>serialData := []\<rparr>"
    using assms(3,4) by (rule loop_newline_clear)
  have date1: "currentDateMMDD ?s1 = currentDateMMDD s"
    by (simp add: clear clear_state)
  have sep: "CHR ''_'' \<in> set (c_str (serialData ?s1))"
    using assms(5) by simp
  have update: "loop_newline ?s1 = (level_update (level_part line) (date_part line) ?s1)\<lparr>serialData := []\<rparr>"
    using loop_newline_level [OF sep] by simp
  have nodate: "\<not> (startsWith ''D'' (date_part line) \<or> startsWith ''d'' (date_part line))"
    using assms(6,7) by (simp add: startsWith_prefix)
  show ?thesis
    unfolding update level_update_state Let_def
    using nodate assms(1) by (simp add: date1 dateSegments_take)
qed

theorem date_redisplayed_after_clear_witness:
  "4 \<le> length (currentDateMMDD (power_on\<lparr>currentDateMMDD := ''1109'', serialData := ''OFF''\<rparr>))
   \<and> CHR 0x00 \<notin> set (currentDateMMDD (power_on\<lparr>currentDateMMDD := ''1109'', serialData := ''OFF''\<rparr>))
   \<and> CHR ''_'' \<notin> set (c_str (serialData (power_on\<lparr>currentDateMMDD := ''1109'', serialData := ''OFF''\<rparr>)))
   \<and> prefix ''OFF'' (serialData (power_on\<lparr>currentDateMMDD := ''1109'', serialData := ''OFF''\<rparr>))
   \<and> CHR ''_'' \<in> set (c_str ''2_'')
   \<and> \<not> prefix ''D'' (date_part ''2_'') \<and> \<not> prefix ''d'' (date_part ''2_'')
   \<and> segments (loop_newline
        ((loop_newline (power_on\<lparr>currentDateMMDD := ''1109'', serialData := ''OFF''\<rparr>))
           \<lparr>serialData := ''2_''\<rparr>))
       = map encodeDigit [1, 1, 0, 9]"
proof -
  have "map (\<lambda>c. encodeDigit (ucast (toInt [c]))) ''1109'' = map encodeDigit [1, 1, 0, 9]"
    using dateSegments_take [of "''1109''"] by (simp add: dateSegments_1109)
  then show ?thesis
    using date_redisplayed_after_clear
      [of "power_on\<lparr>currentDateMMDD := ''1109'', serialData := ''OFF''\<rparr>" "''2_''"]
    by (simp add: c_str_def date_part_def)
qed

subsection \<open>C9: a line with a separator that starts with \<open>OFF\<close>\<close>

text \<open>
  The line \<open>OFF\<close>, NUL, \<open>_D1109\<close> contains a \<open>_\<close>, but the device does not find it:
  the search stops at the NUL. The line acts as a clear command: the stored level is not
  0, the stored date is not \<open>1109\<close>, and the events are those of the clear branch.
\<close>

theorem separator_after_nul_counterexample:
  "CHR ''_'' \<in> set (''OFF'' @ [CHR 0x00] @ ''_D1109'')
   \<and> currentAlertLevel
        (loop_newline (power_on\<lparr>serialData := ''OFF'' @ [CHR 0x00] @ ''_D1109''\<rparr>)) \<noteq> 0
   \<and> currentDateMMDD
        (loop_newline (power_on\<lparr>serialData := ''OFF'' @ [CHR 0x00] @ ''_D1109''\<rparr>)) \<noteq> ''1109''
   \<and> events
        (loop_newline (power_on\<lparr>serialData := ''OFF'' @ [CHR 0x00] @ ''_D1109''\<rparr>))
       = [SetSegments [0, 0, 0, 0], AnalogWrite PIN_RED 0, AnalogWrite PIN_GREEN 0,
          AnalogWrite PIN_BLUE 0]"
  by code_simp

text \<open>
  C9, for the separators the device finds: every line with a \<open>_\<close> that no NUL precedes
  takes the level branch, with the characters before the first \<open>_\<close> as level part and
  the characters after it (up to a NUL) as date part, whatever the line starts with; the
  result is never that of the clear branch. In particular the line \<open>OFF_D1109\<close> stores
  the level 0 and the date \<open>1109\<close>.
\<close>

theorem separator_line_is_level_update:
  assumes "CHR ''_'' \<in> set (c_str (serialData s))"
  shows "loop_newline s =
           (level_update (level_part (serialData s)) (date_part (serialData s)) s)
             \<lparr>serialData := []\<rparr>
       \<and> currentAlertLevel (loop_newline s) = ucast (toInt (level_part (serialData s)))
       \<and> loop_newline s \<noteq> (updateAlertLed LEVEL_OFF (display_clear s))\<lparr>serialData := []\<rparr>
       \<and> currentAlertLevel (loop_newline (s\<lparr>serialData := ''OFF_D1109''\<rparr>)) = 0
       \<and> currentDateMMDD (loop_newline (s\<lparr>serialData := ''OFF_D1109''\<rparr>)) = ''1109''"
proof -
  have eq: "loop_newline s =
      (level_update (level_part (serialData s)) (date_part (serialData s)) s)\<lparr>serialData := []\<rparr>"
    using assms by (rule loop_newline_level)
  have "length (events (loop_newline s)) \<noteq>
        length (events ((updateAlertLed LEVEL_OFF (display_clear s))\<lparr>serialData := []\<rparr>))"
    unfolding eq by (simp add: level_update_state clear_state Let_def)
  then have ne: "loop_newline s \<noteq> (updateAlertLed LEVEL_OFF (display_clear s))\<lparr>serialData := []\<rparr>"
    by auto
  have "loop_newline (s\<lparr>serialData := ''OFF_D1109''\<rparr>) =
        (level_update ''OFF'' (c_str ''D1109'') (s\<lparr>serialData := ''OFF_D1109''\<rparr>))
          \<lparr>serialData := []\<rparr>"
    by (intro loop_newline_sep) simp_all
  then have ex: "loop_newline (s\<lparr>serialData := ''OFF_D1109''\<rparr>) =
        (level_update ''OFF'' ''D1109'' (s\<lparr>serialData := ''OFF_D1109''\<rparr>))\<lparr>serialData := []\<rparr>"
    by (simp add: c_str_def)
  show ?thesis
    using ne unfolding ex
    by (simp add: eq level_update_state Let_def toInt_OFF startsWith_char substring_from_1
        c_str_def)
qed

theorem separator_line_is_level_update_witness:
  "CHR ''_'' \<in> set (c_str (serialData (power_on\<lparr>serialData := ''OFF_D1109''\<rparr>)))
   \<and> currentAlertLevel (loop_newline (power_on\<lparr>serialData := ''OFF_D1109''\<rparr>)) = 0
   \<and> currentDateMMDD (loop_newline (power_on\<lparr>serialData := ''OFF_D1109''\<rparr>)) = ''1109''
   \<and> loop_newline (power_on\<lparr>serialData := ''OFF_D1109''\<rparr>) \<noteq>
       (updateAlertLed LEVEL_OFF (display_clear (power_on\<lparr>serialData := ''OFF_D1109''\<rparr>)))
         \<lparr>serialData := []\<rparr>"
proof -
  have sep: "CHR ''_'' \<in> set (c_str (serialData (power_on\<lparr>serialData := ''OFF_D1109''\<rparr>)))"
    by (simp add: c_str_def)
  show ?thesis
    using separator_line_is_level_update [OF sep, THEN conjunct2] sep
    by (simp add: toInt_OFF level_part_def)
qed

subsection \<open>C10: a stored date shorter than 4 characters\<close>

text \<open>
  C10: for every date of fewer than 4 characters \<^verbatim>\<open>displayDate\<close> leaves the device as it
  is (nothing is written to the display). So every level update (a line in which the
  device finds a \<open>_\<close>) that stores such a date \<open>dt\<close> ends with the dwell: the display keeps
  the rendering of the level.
\<close>

theorem short_date_is_not_displayed:
  assumes "CHR ''_'' \<in> set (c_str (serialData s))"
    and "date_part (serialData s) = c # dt"
    and "c = CHR ''D'' \<or> c = CHR ''d''"
    and "length dt < 4"
  shows "(length mmdd < 4 \<longrightarrow> displayDate mmdd s' = s')
       \<and> currentDateMMDD (loop_newline s) = dt
       \<and> segments (loop_newline s) = numberSegments (ucast (toInt (level_part (serialData s)))) True
       \<and> events (loop_newline s) = events s @
           [AnalogWrite PIN_RED (fst (alertColor (ucast (toInt (level_part (serialData s)))))),
            AnalogWrite PIN_GREEN (fst (snd (alertColor (ucast (toInt (level_part (serialData s))))))),
            AnalogWrite PIN_BLUE (snd (snd (alertColor (ucast (toInt (level_part (serialData s))))))),
            SetSegments (numberSegments (ucast (toInt (level_part (serialData s)))) True),
            Delay 1500]"
  using assms(3,4) date_part_tail [OF assms(2)]
  by (auto simp: loop_newline_level [OF assms(1)] assms(2) level_update_state Let_def
      startsWith_char substring_from_1 displayDate_def)

theorem short_date_is_not_displayed_witness:
  "CHR ''_'' \<in> set (c_str (serialData (power_on\<lparr>serialData := ''1_D110''\<rparr>)))
   \<and> date_part (serialData (power_on\<lparr>serialData := ''1_D110''\<rparr>)) = CHR ''D'' # ''110''
   \<and> length ''110'' < (4 :: nat)
   \<and> displayDate ''110'' power_on = power_on
   \<and> segments (loop_newline (power_on\<lparr>serialData := ''1_D110''\<rparr>)) = map encodeDigit [0, 0, 0, 1]
   \<and> events (loop_newline (power_on\<lparr>serialData := ''1_D110''\<rparr>)) =
       [AnalogWrite PIN_RED 0, AnalogWrite PIN_GREEN MAX_BRIGHTNESS, AnalogWrite PIN_BLUE 0,
        SetSegments (map encodeDigit [0, 0, 0, 1]), Delay 1500]"
proof -
  have "events power_on = []"
    by (simp add: power_on_def)
  then show ?thesis
    using short_date_is_not_displayed
      [of "power_on\<lparr>serialData := ''1_D110''\<rparr>" "CHR ''D''" "''110''" "''110''" power_on]
    by (simp add: toInt_1 numberSegments_1 alertColor_def LEVEL_NORMAL_def c_str_def
        date_part_def level_part_def)
qed

end
